theory Spec2Isabelle
  imports Complex_Main
begin

section \<open>Address and wallet tables (database/addressesDbService.ts, walletsDbService.ts)\<close>

text \<open>
  The Dexie tables are modelled as lists of rows in primary-key order (the order in which
  an unindexed \<^verbatim>\<open>filter\<close> walks a table). The schema declares \<^verbatim>\<open>&script\<close> as
  the unique primary key of the address table and \<^verbatim>\<open>++id\<close> as the key of the wallet
  table. \<^verbatim>\<open>orderBy("index")\<close> walks the rows by ascending \<^verbatim>\<open>index\<close>, rows of equal index
  staying in primary-key order, which is what the stable \<^const>\<open>sort_key\<close> computes.
  Only the columns read by the modelled functions are kept.
\<close>

datatype AddressState = Used | Unused

datatype WalletType = Standard | ReadOnly | Ledger

record WalletSettings =
  avoidAddressReuse :: bool
  defaultChangeIndex :: int

record IDbWallet =
  wallet_id :: nat
  wallet_type :: WalletType
  settings :: WalletSettings

record IDbAddress =
  script :: string
  state :: AddressState
  index :: int
  walletId :: nat

record dbContext =
  wallets :: "IDbWallet list"
  addresses :: "IDbAddress list"

datatype db_error = NotAssociated
  \<comment> \<open>"One or more selected addresses are not associated with the connected wallet."\<close>

datatype lookup_mode = Strict | Loose

text \<open>walletsDbService.getById: \<^verbatim>\<open>wallets.where("id").equals(id).first()\<close>.\<close>

definition getById :: "dbContext \<Rightarrow> nat \<Rightarrow> IDbWallet option" where
  "getById db i = find (\<lambda>w. wallet_id w = i) (wallets db)"

text \<open>
  getByWalletIdAndScripts: \<^verbatim>\<open>where("script").anyOf(scripts).and(a => a.walletId === walletId)\<close>
  collects every row whose script is one of the requested ones and whose wallet matches;
  the strict mode throws when the row count differs from the number of requested scripts.
\<close>

definition getByWalletIdAndScripts ::
  "dbContext \<Rightarrow> nat \<Rightarrow> string list \<Rightarrow> lookup_mode \<Rightarrow> db_error + IDbAddress list" where
  "getByWalletIdAndScripts db wid scripts mode =
     (let result = filter (\<lambda>a. script a \<in> set scripts \<and> walletId a = wid) (addresses db)
      in if mode = Strict \<and> length result \<noteq> length scripts then Inl NotAssociated
         else Inr result)"

definition getByWalletId :: "dbContext \<Rightarrow> nat \<Rightarrow> IDbAddress list" where
  "getByWalletId db wid = sort_key index (filter (\<lambda>a. walletId a = wid) (addresses db))"

definition getByState :: "dbContext \<Rightarrow> nat \<Rightarrow> AddressState \<Rightarrow> IDbAddress list" where
  "getByState db wid st =
     filter (\<lambda>a. walletId a = wid \<and> state a = st) (sort_key index (addresses db))"

text \<open>The private helper \<^verbatim>\<open>_getChangeAddress(wallet)\<close>.\<close>

definition getChangeAddress_inner :: "dbContext \<Rightarrow> IDbWallet \<Rightarrow> IDbAddress option" where
  "getChangeAddress_inner db wallet =
     (if avoidAddressReuse (settings wallet)
      then find (\<lambda>a. walletId a = wallet_id wallet \<and> state a = Unused)
             (sort_key index (addresses db))
      else find (\<lambda>a. walletId a = wallet_id wallet
                     \<and> index a = defaultChangeIndex (settings wallet))
             (addresses db))"

definition getChangeAddress :: "dbContext \<Rightarrow> nat \<Rightarrow> IDbAddress option" where
  "getChangeAddress db wid =
     (case getById db wid of
        None \<Rightarrow> None
      | Some wallet \<Rightarrow>
          (case getChangeAddress_inner db wallet of
             None \<Rightarrow> find (\<lambda>a. walletId a = wid) (sort_key index (addresses db))
           | Some address \<Rightarrow> Some address))"

section \<open>Amounts and protocol constants (common/bigNumber.ts, constants/ergo.ts)\<close>

text \<open>
  A \<^verbatim>\<open>BigNumber\<close> is an arbitrary-precision decimal; the operations the builder uses
  on it (\<^verbatim>\<open>plus\<close>, \<^verbatim>\<open>minus\<close>, \<^verbatim>\<open>multipliedBy\<close>, the comparisons) are exact, so amounts
  are rationals. The module constants/ergo.ts that declares the protocol constants is
  not among the sources: every function that reads one takes the record of constants as
  an argument.
\<close>

type_synonym BigNumber = rat

record ergo_constants =
  ERG_DECIMALS :: int
  ERG_TOKEN_ID :: string
  MIN_BOX_VALUE :: int
  SAFE_MIN_FEE_VALUE :: int

text \<open>
  Modelled from the spec: \<^verbatim>\<open>decimalize\<close> of common/bigNumber.ts is not among the sources.
  The spec (data model, AssetAmount): decimal-scaled values are obtained from the integer
  amounts "via multiply/divide by 10^scale"; a scale of zero leaves the amount as it is.
\<close>

definition decimalize :: "BigNumber \<Rightarrow> int \<Rightarrow> BigNumber" where
  "decimalize v decimals =
     (if decimals = 0 then v
      else if 0 < decimals then v / 10 ^ nat decimals
      else v * 10 ^ nat (- decimals))"

text \<open>
  Modelled from the spec: \<^verbatim>\<open>undecimalize\<close> of common/bigNumber.ts is not among the sources.
  It is the opposite conversion, from a display amount to smallest units (multiply by
  10^scale); the callers pass an optional scale, and without one the amount is unchanged.
\<close>

definition undecimalize :: "BigNumber \<Rightarrow> int option \<Rightarrow> BigNumber" where
  "undecimalize v decimals =
     (case decimals of
        None \<Rightarrow> v
      | Some d \<Rightarrow> if d = 0 then v
                  else if 0 < d then v * 10 ^ nat d
                  else v / 10 ^ nat (- d))"

section \<open>Boxes, fee settings and the transaction builder (chains/ergo/transaction/txBuilder.ts)\<close>

text \<open>
  A box carries its native value and token amounts as decimal integer strings in the
  EIP-12 JSON; they are read here as the integers they denote. The register map is kept
  as an association list (\<^verbatim>\<open>isEmpty\<close> of the object is emptiness of the list).
\<close>

record 'a token_amount =
  tokenId :: string
  amount :: 'a

record ergo_box_candidate =
  ergoTree :: string
  "value" :: int
  assets :: "int token_amount list"
  creationHeight :: nat
  additionalRegisters :: "(string \<times> string) list"

record box = ergo_box_candidate +
  boxId :: string

record BasicAssetMetadata =
  md_name :: "string option"
  md_decimals :: "int option"

record StateAsset =
  sa_tokenId :: string
  sa_metadata :: "BasicAssetMetadata option"

record TxAssetAmount =
  asset :: StateAsset
  tx_amount :: "BigNumber option"

record FeeSettings =
  fee_tokenId :: string
  fee_value :: BigNumber
  nanoErgsPerToken :: "BigNumber option"
  assetInfo :: "BasicAssetMetadata option"
  fee_box :: "box option"

record UnconfirmedTransactionSummary =
  ownInputs :: "box list"
  fee :: BigNumber

datatype build_error =
    FetchRejected
      \<comment> \<open>a rejected promise of a collaborator, passed on unchanged\<close>
  | UnableToFetchInputs
      \<comment> \<open>"Unable to fetch inputs, please check your connection."\<close>
  | UnableToFetchHeight
      \<comment> \<open>"Unable to fetch current height, please check your connection."\<close>
  | NotEnoughLiquidity
      \<comment> \<open>"There is not enough liquidity in the Babel Boxes for the selected fee asset..."\<close>
  | InsufficientInputs
      \<comment> \<open>raised by the library's box selector inside \<^verbatim>\<open>build()\<close>\<close>

datatype 'a settled = Rejected | Fulfilled 'a

subsection \<open>The library's builder, as far as the source configures it\<close>

text \<open>
  \<^verbatim>\<open>TransactionBuilder\<close>, \<^verbatim>\<open>OutputBuilder\<close>, \<^verbatim>\<open>CherryPickSelectionStrategy\<close> and
  \<^verbatim>\<open>BabelSwapPlugin\<close> belong to the Fleet SDK, a dependency. The builder is modelled as the
  record of what the calls of the source store in it: the input pool, the box ids pinned
  by \<^verbatim>\<open>ensureInclusion\<close>, the requested outputs, the fee, the change address, the
  plugins, and the selector and change settings. A setting the source never touches is
  \<^const>\<open>None\<close> (the library's default).
\<close>

datatype selection_strategy = CherryPickSelectionStrategy

datatype input_order = ByCreationHeight

record OutputBuilder =
  ob_value :: BigNumber
  ob_recipient :: string
  ob_tokens :: "BigNumber token_amount list"

datatype FleetPlugin = BabelSwapPlugin box "BigNumber token_amount"

record TransactionBuilder =
  tb_creationHeight :: nat
  tb_inputs :: "box list"
  tb_ensureInclusion :: "string list"
  tb_outputs :: "OutputBuilder list"
  tb_feeAmount :: "BigNumber option"
  tb_changeAddress :: "string option"
  tb_plugins :: "FleetPlugin list"
  tb_maxTokensPerChangeBox :: "nat option"
  tb_isolateErgOnChange :: bool
  tb_strategy :: "selection_strategy option"
  tb_orderBy :: "input_order option"

definition newTransactionBuilder :: "nat \<Rightarrow> TransactionBuilder" where
  "newTransactionBuilder h =
     \<lparr>tb_creationHeight = h, tb_inputs = [], tb_ensureInclusion = [], tb_outputs = [],
      tb_feeAmount = None, tb_changeAddress = None, tb_plugins = [],
      tb_maxTokensPerChangeBox = None, tb_isolateErgOnChange = False,
      tb_strategy = None, tb_orderBy = None\<rparr>"

text \<open>\<^verbatim>\<open>builder.from(boxes, { ensureInclusion })\<close>\<close>

definition from_boxes :: "box list \<Rightarrow> bool \<Rightarrow> TransactionBuilder \<Rightarrow> TransactionBuilder" where
  "from_boxes boxes ensure b =
     b\<lparr>tb_inputs := tb_inputs b @ boxes,
       tb_ensureInclusion :=
         (if ensure then tb_ensureInclusion b @ map boxId boxes else tb_ensureInclusion b)\<rparr>"

definition to_output :: "OutputBuilder \<Rightarrow> TransactionBuilder \<Rightarrow> TransactionBuilder" where
  "to_output out b = b\<lparr>tb_outputs := tb_outputs b @ [out]\<rparr>"

definition payFee :: "BigNumber \<Rightarrow> TransactionBuilder \<Rightarrow> TransactionBuilder" where
  "payFee v b = b\<lparr>tb_feeAmount := Some v\<rparr>"

definition sendChangeTo :: "string \<Rightarrow> TransactionBuilder \<Rightarrow> TransactionBuilder" where
  "sendChangeTo a b = b\<lparr>tb_changeAddress := Some a\<rparr>"

text \<open>\<^verbatim>\<open>builder.extend(plugin)\<close>\<close>

definition extend_plugin :: "FleetPlugin \<Rightarrow> TransactionBuilder \<Rightarrow> TransactionBuilder" where
  "extend_plugin plugin b = b\<lparr>tb_plugins := tb_plugins b @ [plugin]\<rparr>"

text \<open>\<^verbatim>\<open>builder.outputs.sum().nanoErgs\<close>\<close>

definition outputs_sum_nanoErgs :: "TransactionBuilder \<Rightarrow> BigNumber" where
  "outputs_sum_nanoErgs b = sum_list (map ob_value (tb_outputs b))"

text \<open>
  The unsigned transaction that \<^verbatim>\<open>build().toEIP12Object()\<close> hands back, as far as the
  source determines it. The library's selector first takes every pooled box whose id is
  pinned, then lets the configured strategy pick from the remaining boxes (ordered by
  the \<^verbatim>\<open>orderBy\<close> key when one is set); it throws when the target cannot be covered.
  The strategy is a parameter \<open>sel\<close>: it sees the builder and the remaining boxes and
  returns its picks, or \<^const>\<open>None\<close> when it cannot cover the target. The change boxes
  and the fee box that the library computes are not part of this record.
\<close>

record UnsignedTransaction =
  tx_inputs :: "box list"
  tx_outputs :: "OutputBuilder list"
  tx_fee :: "BigNumber option"
  tx_changeAddress :: "string option"
  tx_plugins :: "FleetPlugin list"

type_synonym selector = "TransactionBuilder \<Rightarrow> box list \<Rightarrow> box list option"

definition build :: "selector \<Rightarrow> TransactionBuilder \<Rightarrow> build_error + UnsignedTransaction" where
  "build sel b =
     (let pinned = filter (\<lambda>i. boxId i \<in> set (tb_ensureInclusion b)) (tb_inputs b);
          rest = filter (\<lambda>i. boxId i \<notin> set (tb_ensureInclusion b)) (tb_inputs b);
          ordered = (case tb_orderBy b of
                       None \<Rightarrow> rest
                     | Some ByCreationHeight \<Rightarrow> sort_key creationHeight rest)
      in case sel b ordered of
           None \<Rightarrow> Inl InsufficientInputs
         | Some picked \<Rightarrow>
             Inr \<lparr>tx_inputs = pinned @ picked, tx_outputs = tb_outputs b,
                  tx_fee = tb_feeAmount b, tx_changeAddress = tb_changeAddress b,
                  tx_plugins = tb_plugins b\<rparr>)"

subsection \<open>The build environment\<close>

text \<open>
  The source reads the wallet and application stores, the network and the key pool
  through module-level singletons. They are gathered in one record passed to each build:
  the settled results of \<^verbatim>\<open>fetchBoxes\<close> and \<^verbatim>\<open>graphQLService.getHeight\<close>, the result of
  \<^verbatim>\<open>fetchBabelBoxes\<close> for given token ids and price, the rate helper
  \<^verbatim>\<open>getNanoErgsPerTokenRate\<close>, the wallet's type, its change-address index and the
  key pool's address derivation, and the library's selection strategy.
\<close>

record env =
  constants :: ergo_constants
  fetchBoxes :: "box list settled"
  getHeight :: "nat option settled"
  fetchBabelBoxes :: "string list \<Rightarrow> BigNumber option \<Rightarrow> box list settled"
  getNanoErgsPerTokenRate :: "box \<Rightarrow> BigNumber"
  wallet_store_type :: WalletType
  changeAddress_index :: "int option"
  deriveAddress :: "int \<Rightarrow> string"
  selectBoxes :: selector

definition getContext :: "env \<Rightarrow> build_error + (box list \<times> nat)" where
  "getContext e =
     (case (fetchBoxes e, getHeight e) of
        (Fulfilled inputs, Fulfilled currentHeight) \<Rightarrow>
          if inputs = [] then Inl UnableToFetchInputs
          else (case currentHeight of
                  None \<Rightarrow> Inl UnableToFetchHeight
                | Some h \<Rightarrow> if h = 0 then Inl UnableToFetchHeight else Inr (inputs, h))
      | _ \<Rightarrow> Inl FetchRejected)"

definition safeGetChangeAddress :: "env \<Rightarrow> string" where
  "safeGetChangeAddress e =
     deriveAddress e (case changeAddress_index e of None \<Rightarrow> 0 | Some i \<Rightarrow> i)"

definition setSelectionAndChangeStrategy ::
  "WalletType \<Rightarrow> TransactionBuilder \<Rightarrow> TransactionBuilder" where
  "setSelectionAndChangeStrategy walletType builder =
     (if walletType = Ledger
      then builder\<lparr>tb_isolateErgOnChange := True, tb_maxTokensPerChangeBox := Some 1,
                   tb_strategy := Some CherryPickSelectionStrategy\<rparr>
      else builder\<lparr>tb_maxTokensPerChangeBox := Some 100,
                   tb_orderBy := Some ByCreationHeight\<rparr>)"

text \<open>
  Modelled from the spec: \<^verbatim>\<open>selectBestBabelBox\<close> of chains/ergo/babelFees.ts is not among
  the sources. The spec (Fee Resolver, steps 2 and 3): "select the swap box with the best
  available rate among candidates that have enough reserve to cover the requested
  fee-asset amount; if none qualifies, fail". A candidate has enough reserve when its
  native value covers the requested amount at its own rate; the best rate is the highest
  number of native units per fee-asset unit, the earliest such candidate winning a tie.
\<close>

definition hasEnoughReserve :: "(box \<Rightarrow> BigNumber) \<Rightarrow> BigNumber \<Rightarrow> box \<Rightarrow> bool" where
  "hasEnoughReserve rate tokenUnits b = (tokenUnits * rate b \<le> of_int (value b))"

fun bestByRate :: "(box \<Rightarrow> BigNumber) \<Rightarrow> box list \<Rightarrow> box option" where
  "bestByRate rate [] = None"
| "bestByRate rate (b # bs) =
     (case bestByRate rate bs of
        None \<Rightarrow> Some b
      | Some c \<Rightarrow> if rate c > rate b then Some c else Some b)"

definition selectBestBabelBox ::
  "(box \<Rightarrow> BigNumber) \<Rightarrow> box list \<Rightarrow> BigNumber \<Rightarrow> box option" where
  "selectBestBabelBox rate boxes tokenUnits =
     bestByRate rate (filter (hasEnoughReserve rate tokenUnits) boxes)"

text \<open>
  \<^verbatim>\<open>setFee\<close> mutates the builder and the fee settings it is given and may throw; the model
  returns the error, if any, together with both objects as they are when the call ends.
\<close>

text \<open>The fee amount in units of the fee asset: \<^verbatim>\<open>undecimalize(fee.value, fee.assetInfo?.decimals)\<close>.\<close>

definition feeTokenUnits :: "FeeSettings \<Rightarrow> BigNumber" where
  "feeTokenUnits fe =
     undecimalize (fee_value fe)
       (case assetInfo fe of None \<Rightarrow> None | Some m \<Rightarrow> md_decimals m)"

definition setFee ::
  "env \<Rightarrow> TransactionBuilder \<Rightarrow> FeeSettings
     \<Rightarrow> build_error option \<times> TransactionBuilder \<times> FeeSettings" where
  "setFee e builder fe =
     (let c = constants e;
          isBabelFee = (fee_tokenId fe \<noteq> ERG_TOKEN_ID c);
          feeNanoErgs = undecimalize (fee_value fe) (Some (ERG_DECIMALS c));
          sendingNanoErgs = outputs_sum_nanoErgs builder
      in if isBabelFee then
           (let tokenUnits = feeTokenUnits fe
            in case fetchBabelBoxes e [fee_tokenId fe] (nanoErgsPerToken fe) of
                 Rejected \<Rightarrow> (Some FetchRejected, builder, fe)
               | Fulfilled boxes \<Rightarrow>
                   (case selectBestBabelBox (getNanoErgsPerTokenRate e) boxes tokenUnits of
                      None \<Rightarrow> (Some NotEnoughLiquidity, builder, fe)
                    | Some selectedBox \<Rightarrow>
                        (let fe' = fe\<lparr>fee_box := Some selectedBox\<rparr>;
                             feeNanoErgs1 = tokenUnits * getNanoErgsPerTokenRate e selectedBox;
                             feeNanoErgs2 =
                               (if sendingNanoErgs > 0
                                   \<and> sendingNanoErgs \<le> of_int (MIN_BOX_VALUE c)
                                   \<and> sendingNanoErgs
                                        \<le> feeNanoErgs1 - of_int (SAFE_MIN_FEE_VALUE c)
                                then feeNanoErgs1 - of_int (MIN_BOX_VALUE c)
                                else feeNanoErgs1);
                             builder' = extend_plugin (BabelSwapPlugin selectedBox
                                           \<lparr>tokenId = fee_tokenId fe, amount = tokenUnits\<rparr>)
                                          builder
                         in (None, payFee feeNanoErgs2 builder', fe'))))
         else (None, payFee feeNanoErgs builder, fe))"

definition getSendingNanoErgs :: "ergo_constants \<Rightarrow> TxAssetAmount list \<Rightarrow> BigNumber" where
  "getSendingNanoErgs c as =
     (case find (\<lambda>a. sa_tokenId (asset a) = ERG_TOKEN_ID c) as of
        None \<Rightarrow> 0
      | Some erg \<Rightarrow> (case tx_amount erg of
                      None \<Rightarrow> 0
                    | Some amt \<Rightarrow> undecimalize amt (Some (ERG_DECIMALS c))))"

definition sendingTokens :: "ergo_constants \<Rightarrow> TxAssetAmount list \<Rightarrow> BigNumber token_amount list" where
  "sendingTokens c as =
     map (\<lambda>token. \<lparr>tokenId = sa_tokenId (asset token),
                    amount = undecimalize (case tx_amount token of None \<Rightarrow> 0 | Some a \<Rightarrow> a)
                               (case sa_metadata (asset token) of
                                  None \<Rightarrow> None | Some m \<Rightarrow> md_decimals m)\<rparr>)
       (filter (\<lambda>a. sa_tokenId (asset a) \<noteq> ERG_TOKEN_ID c
                    \<and> (case tx_amount a of None \<Rightarrow> False | Some v \<Rightarrow> v \<noteq> 0)) as)"

definition createP2PTransaction ::
  "env \<Rightarrow> string \<Rightarrow> TxAssetAmount list \<Rightarrow> FeeSettings \<Rightarrow> WalletType
     \<Rightarrow> build_error + UnsignedTransaction" where
  "createP2PTransaction e recipientAddress as fe walletType =
     (case getContext e of
        Inl err \<Rightarrow> Inl err
      | Inr (inputs, currentHeight) \<Rightarrow>
          (let c = constants e;
               isBabelFee = (fee_tokenId fe \<noteq> ERG_TOKEN_ID c);
               sendingNanoErgs = getSendingNanoErgs c as;
               unsigned =
                 sendChangeTo (safeGetChangeAddress e)
                   (to_output
                      \<lparr>ob_value = (if sendingNanoErgs = 0 \<and> isBabelFee
                                    then of_int (MIN_BOX_VALUE c) else sendingNanoErgs),
                       ob_recipient = recipientAddress,
                       ob_tokens = sendingTokens c as\<rparr>
                      (from_boxes inputs False (newTransactionBuilder currentHeight)))
           in case setFee e unsigned fe of
                (Some err, _, _) \<Rightarrow> Inl err
              | (None, unsigned', _) \<Rightarrow>
                  build (selectBoxes e) (setSelectionAndChangeStrategy walletType unsigned')))"

definition createRBFCancellationTransaction ::
  "env \<Rightarrow> UnconfirmedTransactionSummary \<Rightarrow> build_error + UnsignedTransaction" where
  "createRBFCancellationTransaction e unconfirmedTx =
     (case getContext e of
        Inl err \<Rightarrow> Inl err
      | Inr (inputs, currentHeight) \<Rightarrow>
          (let c = constants e;
               ownBoxIds = set (map boxId (ownInputs unconfirmedTx));
               unsigned =
                 sendChangeTo (safeGetChangeAddress e)
                   (payFee (undecimalize (fee unconfirmedTx) (Some (ERG_DECIMALS c))
                              + of_int (SAFE_MIN_FEE_VALUE c))
                      (from_boxes (filter (\<lambda>input. boxId input \<notin> ownBoxIds) inputs) False
                         (from_boxes (ownInputs unconfirmedTx) True
                            (newTransactionBuilder currentHeight))))
           in build (selectBoxes e)
                (setSelectionAndChangeStrategy (wallet_store_type e) unsigned)))"

section \<open>The output interpreter\<close>

text \<open>
  \<^verbatim>\<open>isValidBabelContract\<close> and the register decoder \<^verbatim>\<open>decode\<close> belong to the Fleet SDK and
  are parameters. \<^verbatim>\<open>decode\<close> yields \<^verbatim>\<open>undefined\<close> for bytes that are no serialized
  constant, otherwise a constant with its type and data: a byte collection (the only
  constants whose type prints as \<^verbatim>\<open>SColl[SByte]\<close>), a constant holding a JavaScript
  number, or any other constant, for which only the outcome of \<^verbatim>\<open>Number(data)\<close> is kept.
  A JavaScript number that counts decimals is \<^verbatim>\<open>undefined\<close>, \<^verbatim>\<open>NaN\<close> or an integer.
\<close>

datatype js_number = Undefined | NaN | Num int

datatype SConstant = SCollSByte string | NumberData int | OtherData js_number

record OutputAsset = "BigNumber token_amount" +
  name :: "string option"
  decimals :: js_number
  description :: "string option"
  minting :: "bool option"

type_synonym AssetsMetadataMap = "string \<Rightarrow> BasicAssetMetadata option"

text \<open>
  \<^verbatim>\<open>Number.parseInt(s, 10)\<close>: leading white space is skipped, one sign is read, then the
  longest run of decimal digits; without a digit the result is \<^verbatim>\<open>NaN\<close>. The text of a
  byte collection is kept as its bytes, so the white space skipped is the ASCII one, and
  the digits are read as an unbounded integer (JavaScript rounds beyond 2^53).
\<close>

definition isWhiteSpace :: "char \<Rightarrow> bool" where
  "isWhiteSpace ch = (ch \<in> set [CHR '' '', CHR 0x09, CHR 0x0A, CHR 0x0B, CHR 0x0C, CHR 0x0D])"

definition isDigit :: "char \<Rightarrow> bool" where
  "isDigit ch = (48 \<le> (of_char ch :: nat) \<and> (of_char ch :: nat) \<le> 57)"

definition digitsValue :: "string \<Rightarrow> int" where
  "digitsValue ds = foldl (\<lambda>acc ch. acc * 10 + (int (of_char ch) - 48)) 0 ds"

definition parseInt10 :: "string \<Rightarrow> js_number" where
  "parseInt10 s =
     (let s1 = dropWhile isWhiteSpace s;
          sgn = (case s1 of ch # _ \<Rightarrow> (if ch = CHR ''-'' then - 1 else 1) | [] \<Rightarrow> (1::int));
          s2 = (case s1 of ch # r \<Rightarrow> (if ch = CHR ''-'' \<or> ch = CHR ''+'' then r else s1)
                | [] \<Rightarrow> s1);
          ds = takeWhile isDigit s2
      in if ds = [] then NaN else Num (sgn * digitsValue ds))"

text \<open>\<^verbatim>\<open>decode(value)\<close> for a register that may be absent.\<close>

definition decodeRegister ::
  "(string \<Rightarrow> SConstant option) \<Rightarrow> string option \<Rightarrow> SConstant option" where
  "decodeRegister dec v = (case v of None \<Rightarrow> None | Some bytes \<Rightarrow> dec bytes)"

definition decodeUtf8 :: "(string \<Rightarrow> SConstant option) \<Rightarrow> string option \<Rightarrow> string option" where
  "decodeUtf8 dec v =
     (case decodeRegister dec v of
        Some (SCollSByte bytes) \<Rightarrow> Some bytes
      | _ \<Rightarrow> None)"

definition decodeDecimals :: "(string \<Rightarrow> SConstant option) \<Rightarrow> string option \<Rightarrow> js_number" where
  "decodeDecimals dec v =
     (case decodeRegister dec v of
        None \<Rightarrow> Undefined
      | Some (SCollSByte bytes) \<Rightarrow> parseInt10 bytes
      | Some (NumberData n) \<Rightarrow> Num n
      | Some (OtherData coerced) \<Rightarrow> coerced)"

definition getMintingToken ::
  "(string \<Rightarrow> SConstant option) \<Rightarrow> ergo_box_candidate \<Rightarrow> box list \<Rightarrow> OutputAsset option" where
  "getMintingToken dec bx inputs =
     (case inputs of
        [] \<Rightarrow> None
      | firstInput # _ \<Rightarrow>
          if boxId firstInput = [] then None
          else (case find (\<lambda>b. tokenId b = boxId firstInput) (assets bx) of
                  None \<Rightarrow> None
                | Some token \<Rightarrow>
                    if additionalRegisters bx = []
                    then Some \<lparr>tokenId = tokenId token, amount = of_int (amount token),
                               name = None, decimals = Undefined, description = None,
                               minting = None\<rparr>
                    else (let regs = map_of (additionalRegisters bx);
                              ds = decodeDecimals dec (regs ''R6'')
                          in Some \<lparr>tokenId = tokenId token,
                                    amount = (case ds of
                                                Num n \<Rightarrow> if n \<noteq> 0
                                                          then decimalize (of_int (amount token)) n
                                                          else of_int (amount token)
                                              | _ \<Rightarrow> of_int (amount token)),
                                    name = Some (case decodeUtf8 dec (regs ''R4'') of
                                                   None \<Rightarrow> [] | Some t \<Rightarrow> t),
                                    decimals = ds,
                                    description = Some (case decodeUtf8 dec (regs ''R5'') of
                                                          None \<Rightarrow> [] | Some t \<Rightarrow> t),
                                    minting = Some True\<rparr>)))"

fun findIndex :: "('a \<Rightarrow> bool) \<Rightarrow> 'a list \<Rightarrow> nat option" where
  "findIndex P [] = None"
| "findIndex P (x # xs) =
     (if P x then Some 0 else map_option Suc (findIndex P xs))"

definition metadataName :: "AssetsMetadataMap \<Rightarrow> string \<Rightarrow> string option" where
  "metadataName metadata tid = (case metadata tid of None \<Rightarrow> None | Some m \<Rightarrow> md_name m)"

definition metadataDecimals :: "AssetsMetadataMap \<Rightarrow> string \<Rightarrow> int option" where
  "metadataDecimals metadata tid = (case metadata tid of None \<Rightarrow> None | Some m \<Rightarrow> md_decimals m)"

definition ergAsset :: "ergo_constants \<Rightarrow> BigNumber \<Rightarrow> OutputAsset" where
  "ergAsset c nanoErgs =
     \<lparr>tokenId = ERG_TOKEN_ID c, amount = decimalize nanoErgs (ERG_DECIMALS c),
      name = Some ''ERG'', decimals = Undefined, description = None, minting = None\<rparr>"

definition buildSendingAssetsList ::
  "ergo_constants \<Rightarrow> (string \<Rightarrow> SConstant option) \<Rightarrow> AssetsMetadataMap
     \<Rightarrow> ergo_box_candidate \<Rightarrow> box list \<Rightarrow> OutputAsset list" where
  "buildSendingAssetsList c dec metadata bx inputs =
     (let erg = ergAsset c (of_int (value bx))
      in if assets bx = [] then [erg]
         else
           (let tokens =
                  map (\<lambda>t. \<lparr>tokenId = tokenId t,
                             amount = (case metadataDecimals metadata (tokenId t) of
                                         None \<Rightarrow> of_int (amount t)
                                       | Some d \<Rightarrow> if d \<noteq> 0
                                                   then decimalize (of_int (amount t)) d
                                                   else of_int (amount t)),
                             name = metadataName metadata (tokenId t),
                             decimals = Undefined, description = None, minting = None\<rparr>)
                    (assets bx)
            in case getMintingToken dec bx inputs of
                 None \<Rightarrow> erg # tokens
               | Some mint \<Rightarrow>
                   (case findIndex (\<lambda>t. tokenId t = tokenId mint) tokens of
                      None \<Rightarrow> erg # tokens
                    | Some i \<Rightarrow> erg # tokens[i := mint])))"

definition buildBabelSwapAssetsList ::
  "ergo_constants \<Rightarrow> (string \<Rightarrow> SConstant option) \<Rightarrow> AssetsMetadataMap
     \<Rightarrow> ergo_box_candidate \<Rightarrow> box list \<Rightarrow> OutputAsset list" where
  "buildBabelSwapAssetsList c dec metadata bx inputs =
     (case find (\<lambda>input. ergoTree input = ergoTree bx) inputs of
        None \<Rightarrow> buildSendingAssetsList c dec metadata bx inputs
      | Some input \<Rightarrow>
          map (\<lambda>token.
                 (let inputValue = (case find (\<lambda>a. tokenId a = tokenId token) (assets input) of
                                      None \<Rightarrow> 0 | Some a \<Rightarrow> amount a)
                  in \<lparr>tokenId = tokenId token,
                      amount = decimalize (of_int (amount token) - of_int inputValue)
                                 (case metadataDecimals metadata (tokenId token) of
                                    None \<Rightarrow> 0 | Some d \<Rightarrow> d),
                      name = metadataName metadata (tokenId token),
                      decimals = Undefined, description = None, minting = None\<rparr>))
            (assets bx)
          @ [ergAsset c (of_int (value input) - of_int (value bx))])"

definition isBabelBoxSwap :: "(string \<Rightarrow> bool) \<Rightarrow> ergo_box_candidate \<Rightarrow> box list \<Rightarrow> bool" where
  "isBabelBoxSwap isValidBabelContract bx inputs =
     (isValidBabelContract (ergoTree bx)
      \<and> find (\<lambda>input. ergoTree input = ergoTree bx) inputs \<noteq> None)"

text \<open>
  The constructor computes the asset list once; \<^verbatim>\<open>assets\<close> and \<^verbatim>\<open>isMinting\<close> are the
  public getters over it.
\<close>

definition interpreter_assets ::
  "ergo_constants \<Rightarrow> (string \<Rightarrow> bool) \<Rightarrow> (string \<Rightarrow> SConstant option) \<Rightarrow> AssetsMetadataMap
     \<Rightarrow> ergo_box_candidate \<Rightarrow> box list \<Rightarrow> OutputAsset list" where
  "interpreter_assets c isValidBabelContract dec metadata bx inputs =
     (if isBabelBoxSwap isValidBabelContract bx inputs
      then buildBabelSwapAssetsList c dec metadata bx inputs
      else buildSendingAssetsList c dec metadata bx inputs)"

definition isMinting ::
  "ergo_constants \<Rightarrow> (string \<Rightarrow> bool) \<Rightarrow> (string \<Rightarrow> SConstant option) \<Rightarrow> AssetsMetadataMap
     \<Rightarrow> ergo_box_candidate \<Rightarrow> box list \<Rightarrow> bool" where
  "isMinting c isValidBabelContract dec metadata bx inputs =
     (find (\<lambda>a. minting a = Some True)
        (interpreter_assets c isValidBabelContract dec metadata bx inputs) \<noteq> None)"

section \<open>Concrete inputs\<close>

text \<open>
  Inputs at which the theorems below are evaluated. The constants are those in use on the
  Ergo main network.
\<close>

definition sample_db :: dbContext where
  "sample_db = \<lparr>wallets =
       [\<lparr>wallet_id = 1, wallet_type = Standard,
          settings = \<lparr>avoidAddressReuse = True, defaultChangeIndex = 0\<rparr>\<rparr>,
        \<lparr>wallet_id = 2, wallet_type = Ledger,
          settings = \<lparr>avoidAddressReuse = False, defaultChangeIndex = 1\<rparr>\<rparr>,
        \<lparr>wallet_id = 3, wallet_type = ReadOnly,
          settings = \<lparr>avoidAddressReuse = False, defaultChangeIndex = 7\<rparr>\<rparr>],
     addresses =
       [\<lparr>script = ''9a'', state = Unused, index = 2, walletId = 1\<rparr>,
        \<lparr>script = ''9b'', state = Used, index = 0, walletId = 1\<rparr>,
        \<lparr>script = ''9c'', state = Unused, index = 1, walletId = 1\<rparr>,
        \<lparr>script = ''9d'', state = Used, index = 1, walletId = 2\<rparr>,
        \<lparr>script = ''9e'', state = Used, index = 0, walletId = 2\<rparr>,
        \<lparr>script = ''9f'', state = Used, index = 4, walletId = 3\<rparr>,
        \<lparr>script = ''9g'', state = Used, index = 3, walletId = 3\<rparr>]\<rparr>"

definition sample_constants :: ergo_constants where
  "sample_constants =
     \<lparr>ERG_DECIMALS = 9,
      ERG_TOKEN_ID = ''0000000000000000000000000000000000000000000000000000000000000000'',
      MIN_BOX_VALUE = 1000000, SAFE_MIN_FEE_VALUE = 1100000\<rparr>"

definition mk_box :: "string \<Rightarrow> string \<Rightarrow> int \<Rightarrow> int token_amount list \<Rightarrow> nat \<Rightarrow> box" where
  "mk_box i tree v toks h =
     \<lparr>ergoTree = tree, value = v, assets = toks, creationHeight = h,
      additionalRegisters = [], boxId = i\<rparr>"

definition sample_babel_boxes :: "box list" where
  "sample_babel_boxes =
     [mk_box ''babel1'' ''babelTree'' 10000000 [] 1000,
      mk_box ''babel2'' ''babelTree'' 2000000 [] 1001]"

definition sample_env :: "box list settled \<Rightarrow> nat option settled \<Rightarrow> selector \<Rightarrow> env" where
  "sample_env fb gh sel =
     \<lparr>constants = sample_constants, fetchBoxes = fb, getHeight = gh,
      fetchBabelBoxes = (\<lambda>ids price. Fulfilled sample_babel_boxes),
      getNanoErgsPerTokenRate = (\<lambda>b. if boxId b = ''babel1'' then 100000 else 120000),
      wallet_store_type = Standard, changeAddress_index = None,
      deriveAddress = (\<lambda>i. if i = 0 then ''9change0'' else ''9changeN''),
      selectBoxes = sel\<rparr>"

definition sample_unconfirmed :: UnconfirmedTransactionSummary where
  "sample_unconfirmed =
     \<lparr>ownInputs = [mk_box ''in1'' ''walletTree'' 3000000 [] 900],
      fee = 11 / 10000\<rparr>"

definition sample_native_fee :: FeeSettings where
  "sample_native_fee =
     \<lparr>fee_tokenId = ERG_TOKEN_ID sample_constants, fee_value = 11 / 10000,
      nanoErgsPerToken = None, assetInfo = None, fee_box = None\<rparr>"

definition sample_assets :: "TxAssetAmount list" where
  "sample_assets =
     [\<lparr>asset = \<lparr>sa_tokenId = ERG_TOKEN_ID sample_constants, sa_metadata = None\<rparr>,
       tx_amount = Some (1 / 100)\<rparr>]"





definition swap_input :: box where
  "swap_input = mk_box ''swapIn'' ''babelTree'' 2000000000 [\<lparr>tokenId = ''assetB'', amount = 1000\<rparr>] 1000"

definition swap_output :: ergo_box_candidate where
  "swap_output =
     \<lparr>ergoTree = ''babelTree'', value = 2005000000,
      assets = [\<lparr>tokenId = ''assetB'', amount = 900\<rparr>], creationHeight = 1200,
      additionalRegisters = []\<rparr>"

definition sample_isValidBabelContract :: "string \<Rightarrow> bool" where
  "sample_isValidBabelContract tree = (tree = ''babelTree'')"

definition sample_decode :: "string \<Rightarrow> SConstant option" where
  "sample_decode bytes =
     (if bytes = ''0e05546f6b656e'' then Some (SCollSByte ''Token'')
      else if bytes = ''0e0132'' then Some (SCollSByte ''2'')
      else None)"

definition mint_output :: "(string \<times> string) list \<Rightarrow> ergo_box_candidate" where
  "mint_output regs =
     \<lparr>ergoTree = ''walletTree'', value = 1000000,
      assets = [\<lparr>tokenId = ''in1'', amount = 12345\<rparr>], creationHeight = 1200,
      additionalRegisters = regs\<rparr>"

definition mint_inputs :: "box list" where
  "mint_inputs = [mk_box ''in1'' ''walletTree'' 3000000 [] 900]"

section \<open>Properties of the address lookups\<close>

lemma find_sorted_least:
  "sorted (map f ys) \<Longrightarrow> find P ys = Some a \<Longrightarrow> b \<in> set ys \<Longrightarrow> P b \<Longrightarrow> f a \<le> f b"
  by (induction ys) (auto split: if_splits)

lemma find_Some_mem: "find P xs = Some a \<Longrightarrow> a \<in> set xs \<and> P a"
  by (induction xs) (auto split: if_splits)

lemma find_sort_key_least:
  assumes "find P (sort_key f xs) = Some a"
  shows "a \<in> set xs \<and> P a \<and> (\<forall>b\<in>set xs. P b \<longrightarrow> f a \<le> f b)"
proof -
  from assms have "a \<in> set (sort_key f xs)" and "P a"
    using find_Some_mem [of P "sort_key f xs" a] by simp_all
  moreover have "\<forall>b\<in>set xs. P b \<longrightarrow> f a \<le> f b"
    using find_sorted_least [of f "sort_key f xs" P a] assms by simp
  ultimately show ?thesis by simp
qed

lemma find_exists:
  "\<exists>x\<in>set xs. P x \<Longrightarrow> \<exists>a. find P xs = Some a \<and> a \<in> set xs \<and> P a"
  by (induction xs) auto

lemma find_sort_key_exists:
  assumes "\<exists>x\<in>set xs. P x"
  shows "\<exists>a. find P (sort_key f xs) = Some a \<and> a \<in> set xs \<and> P a
             \<and> (\<forall>b\<in>set xs. P b \<longrightarrow> f a \<le> f b)"
proof -
  from assms have "\<exists>x\<in>set (sort_key f xs). P x" by simp
  then obtain a where "find P (sort_key f xs) = Some a"
    using find_exists [of "sort_key f xs" P] by blast
  then show ?thesis using find_sort_key_least [of P f xs a] by blast
qed

lemma find_none:
  "\<not> (\<exists>x\<in>set xs. P x) \<Longrightarrow> find P xs = None"
  by (simp add: find_None_iff)

lemma getById_id: "getById db wid = Some w \<Longrightarrow> wallet_id w = wid"
  using find_Some_mem [of "\<lambda>w. wallet_id w = wid" "wallets db" w] by (simp add: getById_def)

text \<open>
  Claim C6. The change address of a wallet is resolved in this order: with address-reuse
  avoidance switched on, the unused address of the wallet with the lowest index;
  otherwise the wallet's address whose index is the configured default change index;
  when that lookup finds nothing, the wallet's address with the lowest index of all
  (and nothing when the wallet has no address); for an unknown wallet id, nothing.
\<close>

theorem getChangeAddress_precedence:
  "(getById db wid = None \<longrightarrow> getChangeAddress db wid = None)
   \<and> (\<forall>w. getById db wid = Some w \<longrightarrow>
        (avoidAddressReuse (settings w)
           \<and> (\<exists>x\<in>set (addresses db). walletId x = wid \<and> state x = Unused)
         \<longrightarrow> (\<exists>a. getChangeAddress db wid = Some a \<and> a \<in> set (addresses db)
                  \<and> walletId a = wid \<and> state a = Unused
                  \<and> (\<forall>b\<in>set (addresses db).
                        walletId b = wid \<and> state b = Unused \<longrightarrow> index a \<le> index b)))
      \<and> (\<not> avoidAddressReuse (settings w)
           \<and> (\<exists>x\<in>set (addresses db).
                  walletId x = wid \<and> index x = defaultChangeIndex (settings w))
         \<longrightarrow> (\<exists>a. getChangeAddress db wid = Some a \<and> a \<in> set (addresses db)
                  \<and> walletId a = wid \<and> index a = defaultChangeIndex (settings w)))
      \<and> ((if avoidAddressReuse (settings w)
            then \<not> (\<exists>x\<in>set (addresses db). walletId x = wid \<and> state x = Unused)
            else \<not> (\<exists>x\<in>set (addresses db).
                        walletId x = wid \<and> index x = defaultChangeIndex (settings w)))
         \<longrightarrow> (if \<exists>x\<in>set (addresses db). walletId x = wid
              then \<exists>a. getChangeAddress db wid = Some a \<and> a \<in> set (addresses db)
                     \<and> walletId a = wid
                     \<and> (\<forall>b\<in>set (addresses db). walletId b = wid \<longrightarrow> index a \<le> index b)
              else getChangeAddress db wid = None)))"
proof (intro conjI allI impI)
  assume "getById db wid = None"
  then show "getChangeAddress db wid = None" by (simp add: getChangeAddress_def)
next
  fix w
  assume w: "getById db wid = Some w"
    and h: "avoidAddressReuse (settings w)
            \<and> (\<exists>x\<in>set (addresses db). walletId x = wid \<and> state x = Unused)"
  have wid: "wallet_id w = wid" using w by (rule getById_id)
  from h obtain a where a: "find (\<lambda>a. walletId a = wid \<and> state a = Unused)
        (sort_key index (addresses db)) = Some a"
      "a \<in> set (addresses db)" "walletId a = wid \<and> state a = Unused"
      "\<forall>b\<in>set (addresses db). walletId b = wid \<and> state b = Unused \<longrightarrow> index a \<le> index b"
    using find_sort_key_exists [of "addresses db" "\<lambda>a. walletId a = wid \<and> state a = Unused" index]
    by blast
  have "getChangeAddress db wid = Some a"
    using w h a(1) wid by (simp add: getChangeAddress_def getChangeAddress_inner_def)
  then show "\<exists>a. getChangeAddress db wid = Some a \<and> a \<in> set (addresses db)
                  \<and> walletId a = wid \<and> state a = Unused
                  \<and> (\<forall>b\<in>set (addresses db).
                        walletId b = wid \<and> state b = Unused \<longrightarrow> index a \<le> index b)"
    using a by blast
next
  fix w
  assume w: "getById db wid = Some w"
    and h: "\<not> avoidAddressReuse (settings w)
           \<and> (\<exists>x\<in>set (addresses db).
                  walletId x = wid \<and> index x = defaultChangeIndex (settings w))"
  have wid: "wallet_id w = wid" using w by (rule getById_id)
  from h obtain a where a: "find (\<lambda>a. walletId a = wid \<and> index a = defaultChangeIndex (settings w))
        (addresses db) = Some a"
      "a \<in> set (addresses db)" "walletId a = wid \<and> index a = defaultChangeIndex (settings w)"
    using find_exists [of "addresses db" "\<lambda>a. walletId a = wid \<and> index a = defaultChangeIndex (settings w)"]
    by blast
  have "getChangeAddress db wid = Some a"
    using w h a(1) wid by (simp add: getChangeAddress_def getChangeAddress_inner_def)
  then show "\<exists>a. getChangeAddress db wid = Some a \<and> a \<in> set (addresses db)
                  \<and> walletId a = wid \<and> index a = defaultChangeIndex (settings w)"
    using a by blast
next
  fix w
  assume w: "getById db wid = Some w"
    and h: "if avoidAddressReuse (settings w)
            then \<not> (\<exists>x\<in>set (addresses db). walletId x = wid \<and> state x = Unused)
            else \<not> (\<exists>x\<in>set (addresses db).
                        walletId x = wid \<and> index x = defaultChangeIndex (settings w))"
  have wid: "wallet_id w = wid" using w by (rule getById_id)
  have inner: "getChangeAddress_inner db w = None"
  proof (cases "avoidAddressReuse (settings w)")
    case True
    with h have "\<not> (\<exists>x\<in>set (sort_key index (addresses db)). walletId x = wid \<and> state x = Unused)"
      by simp
    then have "find (\<lambda>a. walletId a = wid \<and> state a = Unused) (sort_key index (addresses db)) = None"
      by (rule find_none)
    with True wid show ?thesis by (simp add: getChangeAddress_inner_def)
  next
    case False
    with h have "\<not> (\<exists>x\<in>set (addresses db). walletId x = wid \<and> index x = defaultChangeIndex (settings w))"
      by simp
    then have "find (\<lambda>a. walletId a = wid \<and> index a = defaultChangeIndex (settings w)) (addresses db) = None"
      by (rule find_none)
    with False wid show ?thesis by (simp add: getChangeAddress_inner_def)
  qed
  then have fb: "getChangeAddress db wid = find (\<lambda>a. walletId a = wid) (sort_key index (addresses db))"
    using w by (simp add: getChangeAddress_def)
  show "if \<exists>x\<in>set (addresses db). walletId x = wid
        then \<exists>a. getChangeAddress db wid = Some a \<and> a \<in> set (addresses db)
                     \<and> walletId a = wid
                     \<and> (\<forall>b\<in>set (addresses db). walletId b = wid \<longrightarrow> index a \<le> index b)
        else getChangeAddress db wid = None"
  proof (cases "\<exists>x\<in>set (addresses db). walletId x = wid")
    case True
    then show ?thesis
      using find_sort_key_exists [of "addresses db" "\<lambda>a. walletId a = wid" index] fb by simp
  next
    case False
    then have "\<not> (\<exists>x\<in>set (sort_key index (addresses db)). walletId x = wid)" by simp
    then have "find (\<lambda>a. walletId a = wid) (sort_key index (addresses db)) = None"
      by (rule find_none)
    with False fb show ?thesis by simp
  qed
qed


theorem getChangeAddress_precedence_witness:
  "getById sample_db 4 = None \<and> getChangeAddress sample_db 4 = None
   \<and> getById sample_db 1 = Some \<lparr>wallet_id = 1, wallet_type = Standard,
          settings = \<lparr>avoidAddressReuse = True, defaultChangeIndex = 0\<rparr>\<rparr>
   \<and> getChangeAddress sample_db 1
       = Some \<lparr>script = ''9c'', state = Unused, index = 1, walletId = 1\<rparr>
   \<and> getById sample_db 2 = Some \<lparr>wallet_id = 2, wallet_type = Ledger,
          settings = \<lparr>avoidAddressReuse = False, defaultChangeIndex = 1\<rparr>\<rparr>
   \<and> getChangeAddress sample_db 2
       = Some \<lparr>script = ''9d'', state = Used, index = 1, walletId = 2\<rparr>
   \<and> getById sample_db 3 = Some \<lparr>wallet_id = 3, wallet_type = ReadOnly,
          settings = \<lparr>avoidAddressReuse = False, defaultChangeIndex = 7\<rparr>\<rparr>
   \<and> getChangeAddress sample_db 3
       = Some \<lparr>script = ''9g'', state = Used, index = 3, walletId = 3\<rparr>"
  using getChangeAddress_precedence [of sample_db 4]
        getChangeAddress_precedence [of sample_db 1]
        getChangeAddress_precedence [of sample_db 2]
        getChangeAddress_precedence [of sample_db 3]
  by (simp add: sample_db_def getById_def getChangeAddress_def getChangeAddress_inner_def)


lemma distinct_image_full:
  assumes d: "distinct (map f r)" and sub: "f ` set r \<subseteq> set ss" and len: "length r = length ss"
  shows "distinct ss \<and> f ` set r = set ss"
proof -
  have c1: "card (f ` set r) = length r" using d distinct_card [of "map f r"] by simp
  have c2: "card (f ` set r) \<le> card (set ss)" using sub by (simp add: card_mono)
  have c3: "card (set ss) \<le> length ss" by (rule card_length)
  from c1 c2 c3 len have ceq: "card (set ss) = length ss" and ceq2: "card (f ` set r) = card (set ss)"
    by simp_all
  from ceq have "distinct ss" by (rule card_distinct)
  moreover from sub ceq2 have "f ` set r = set ss" by (simp add: card_subset_eq)
  ultimately show ?thesis by simp
qed

text \<open>
  Claim C9. The loose lookup returns the matching rows whatever their number. The strict
  lookup throws when fewer rows match than scripts were requested, and when it returns,
  the rows are in one-to-one correspondence with the requested scripts (scripts are the
  unique key of the address table).
\<close>

theorem getByWalletIdAndScripts_modes:
  "getByWalletIdAndScripts db wid scripts Loose
     = Inr (filter (\<lambda>a. script a \<in> set scripts \<and> walletId a = wid) (addresses db))
   \<and> (length (filter (\<lambda>a. script a \<in> set scripts \<and> walletId a = wid) (addresses db))
        < length scripts
      \<longrightarrow> getByWalletIdAndScripts db wid scripts Strict = Inl NotAssociated)
   \<and> (\<forall>r. distinct (map script (addresses db))
          \<and> getByWalletIdAndScripts db wid scripts Strict = Inr r
        \<longrightarrow> length r = length scripts \<and> distinct (map script r)
            \<and> script ` set r = set scripts \<and> distinct scripts
            \<and> (\<forall>a\<in>set r. walletId a = wid \<and> a \<in> set (addresses db)))"
proof -
  let ?m = "filter (\<lambda>a. script a \<in> set scripts \<and> walletId a = wid) (addresses db)"
  have loose: "getByWalletIdAndScripts db wid scripts Loose = Inr ?m"
    by (simp add: getByWalletIdAndScripts_def)
  have short: "length ?m < length scripts
      \<longrightarrow> getByWalletIdAndScripts db wid scripts Strict = Inl NotAssociated"
    by (simp add: getByWalletIdAndScripts_def)
  have strict: "length r = length scripts \<and> distinct (map script r)
            \<and> script ` set r = set scripts \<and> distinct scripts
            \<and> (\<forall>a\<in>set r. walletId a = wid \<and> a \<in> set (addresses db))"
    if h: "distinct (map script (addresses db))
          \<and> getByWalletIdAndScripts db wid scripts Strict = Inr r" for r
  proof -
    from h have r: "r = ?m" and len: "length r = length scripts"
      by (auto simp: getByWalletIdAndScripts_def Let_def split: if_splits)
    from h r have d: "distinct (map script r)" by (simp add: distinct_map_filter)
    from r have sub: "script ` set r \<subseteq> set scripts" by auto
    from distinct_image_full [OF d sub len] d len r show ?thesis by simp
  qed
  from loose short strict show ?thesis by blast
qed

theorem getByWalletIdAndScripts_modes_witness:
  "length (filter (\<lambda>a. script a \<in> set [''9a'', ''9d''] \<and> walletId a = 1) (addresses sample_db))
      < length [''9a'', ''9d'']
   \<and> getByWalletIdAndScripts sample_db 1 [''9a'', ''9d''] Strict = Inl NotAssociated
   \<and> getByWalletIdAndScripts sample_db 1 [''9a'', ''9d''] Loose
       = Inr [\<lparr>script = ''9a'', state = Unused, index = 2, walletId = 1\<rparr>]
   \<and> distinct (map script (addresses sample_db))
   \<and> getByWalletIdAndScripts sample_db 1 [''9c'', ''9a''] Strict
       = Inr [\<lparr>script = ''9a'', state = Unused, index = 2, walletId = 1\<rparr>,
              \<lparr>script = ''9c'', state = Unused, index = 1, walletId = 1\<rparr>]
   \<and> getByWalletIdAndScripts sample_db 1 [''9a'', ''9a''] Strict = Inl NotAssociated"
proof -
  have d: "distinct (map script (addresses sample_db))"
    by (simp add: sample_db_def)
  have s1: "getByWalletIdAndScripts sample_db 1 [''9c'', ''9a''] Strict
       = Inr [\<lparr>script = ''9a'', state = Unused, index = 2, walletId = 1\<rparr>,
              \<lparr>script = ''9c'', state = Unused, index = 1, walletId = 1\<rparr>]"
    by (simp add: sample_db_def getByWalletIdAndScripts_def)
  have short: "length (filter (\<lambda>a. script a \<in> set [''9a'', ''9d''] \<and> walletId a = 1)
                 (addresses sample_db)) < length [''9a'', ''9d'']"
    by (simp add: sample_db_def)
  note t1 = getByWalletIdAndScripts_modes [of sample_db 1 "[''9a'', ''9d'']"]
  note t2 = getByWalletIdAndScripts_modes [of sample_db 1 "[''9c'', ''9a'']"]
  from t1 short have e1: "getByWalletIdAndScripts sample_db 1 [''9a'', ''9d''] Strict
      = Inl NotAssociated" by blast
  from t1 have l1: "getByWalletIdAndScripts sample_db 1 [''9a'', ''9d''] Loose
       = Inr [\<lparr>script = ''9a'', state = Unused, index = 2, walletId = 1\<rparr>]"
    by (simp add: sample_db_def)
  from t2 d s1 have "length [\<lparr>script = ''9a'', state = Unused, index = 2, walletId = 1\<rparr>,
              \<lparr>script = ''9c'', state = Unused, index = 1, walletId = (1::nat)\<rparr>]
        = length [''9c'', ''9a'']" by blast
  have e2: "getByWalletIdAndScripts sample_db 1 [''9a'', ''9a''] Strict = Inl NotAssociated"
    by (simp add: sample_db_def getByWalletIdAndScripts_def)
  from short e1 l1 d s1 e2 show ?thesis by blast
qed

section \<open>Properties of the builds\<close>

text \<open>
  Claim C7. The selection and change settings of a build depend on the wallet type
  alone: a Ledger wallet gets the cherry-pick strategy and at most one token per change
  box, every other wallet gets the inputs ordered by creation height and at most 100
  tokens per change box.
\<close>

theorem setSelectionAndChangeStrategy_by_wallet_type:
  "tb_maxTokensPerChangeBox (setSelectionAndChangeStrategy walletType b)
     = Some (if walletType = Ledger then 1 else 100)
   \<and> (walletType = Ledger \<longrightarrow>
        tb_strategy (setSelectionAndChangeStrategy walletType b)
          = Some CherryPickSelectionStrategy
        \<and> tb_isolateErgOnChange (setSelectionAndChangeStrategy walletType b)
        \<and> tb_orderBy (setSelectionAndChangeStrategy walletType b) = tb_orderBy b)
   \<and> (walletType \<noteq> Ledger \<longrightarrow>
        tb_orderBy (setSelectionAndChangeStrategy walletType b) = Some ByCreationHeight
        \<and> tb_strategy (setSelectionAndChangeStrategy walletType b) = tb_strategy b
        \<and> tb_isolateErgOnChange (setSelectionAndChangeStrategy walletType b)
            = tb_isolateErgOnChange b)"
  by (simp add: setSelectionAndChangeStrategy_def)

theorem setSelectionAndChangeStrategy_by_wallet_type_witness:
  "tb_strategy (setSelectionAndChangeStrategy Ledger (newTransactionBuilder 1200))
      = Some CherryPickSelectionStrategy
   \<and> tb_maxTokensPerChangeBox (setSelectionAndChangeStrategy Ledger (newTransactionBuilder 1200))
      = Some 1
   \<and> tb_orderBy (setSelectionAndChangeStrategy Ledger (newTransactionBuilder 1200)) = None
   \<and> tb_orderBy (setSelectionAndChangeStrategy Standard (newTransactionBuilder 1200))
      = Some ByCreationHeight
   \<and> tb_maxTokensPerChangeBox (setSelectionAndChangeStrategy ReadOnly (newTransactionBuilder 1200))
      = Some 100
   \<and> tb_strategy (setSelectionAndChangeStrategy Standard (newTransactionBuilder 1200)) = None"
  using setSelectionAndChangeStrategy_by_wallet_type [of Ledger "newTransactionBuilder 1200"]
        setSelectionAndChangeStrategy_by_wallet_type [of Standard "newTransactionBuilder 1200"]
        setSelectionAndChangeStrategy_by_wallet_type [of ReadOnly "newTransactionBuilder 1200"]
  by (simp add: newTransactionBuilder_def)

lemma getContext_Inr_iff:
  "getContext e = Inr (inputs, h)
     \<longleftrightarrow> fetchBoxes e = Fulfilled inputs \<and> inputs \<noteq> []
         \<and> getHeight e = Fulfilled (Some h) \<and> h \<noteq> 0"
  by (auto simp: getContext_def split: settled.splits option.splits if_splits)

text \<open>
  Claim C5. The context of a build is the pair of the fetched boxes and the current
  height, and it exists only when both calls succeeded with a non-empty box list and a
  non-zero height. A rejected call, an empty list or a missing height is an error, the
  same error is the result of the build, and no draft is produced; each collaborator is
  consulted once.
\<close>

theorem getContext_all_or_nothing:
  "(getContext e = Inr (inputs, h)
       \<longleftrightarrow> fetchBoxes e = Fulfilled inputs \<and> inputs \<noteq> []
           \<and> getHeight e = Fulfilled (Some h) \<and> h \<noteq> 0)
   \<and> (fetchBoxes e = Rejected \<or> getHeight e = Rejected
        \<longrightarrow> getContext e = Inl FetchRejected)
   \<and> (fetchBoxes e = Fulfilled [] \<and> getHeight e \<noteq> Rejected
        \<longrightarrow> getContext e = Inl UnableToFetchInputs)
   \<and> (fetchBoxes e \<noteq> Rejected \<and> fetchBoxes e \<noteq> Fulfilled []
         \<and> (getHeight e = Fulfilled None \<or> getHeight e = Fulfilled (Some 0))
        \<longrightarrow> getContext e = Inl UnableToFetchHeight)
   \<and> (\<forall>err. getContext e = Inl err
        \<longrightarrow> createP2PTransaction e recipientAddress as fe walletType = Inl err
            \<and> createRBFCancellationTransaction e unconfirmedTx = Inl err)
   \<and> (\<forall>draft. createP2PTransaction e recipientAddress as fe walletType = Inr draft
                \<or> createRBFCancellationTransaction e unconfirmedTx = Inr draft
        \<longrightarrow> (\<exists>ins ht. fetchBoxes e = Fulfilled ins \<and> ins \<noteq> []
                  \<and> getHeight e = Fulfilled (Some ht) \<and> ht \<noteq> 0))"
proof -
  have a: "getContext e = Inr (inputs, h)
       \<longleftrightarrow> fetchBoxes e = Fulfilled inputs \<and> inputs \<noteq> []
           \<and> getHeight e = Fulfilled (Some h) \<and> h \<noteq> 0"
    by (rule getContext_Inr_iff)
  have b: "fetchBoxes e = Rejected \<or> getHeight e = Rejected
        \<longrightarrow> getContext e = Inl FetchRejected"
    by (auto simp: getContext_def split: settled.splits)
  have c: "fetchBoxes e = Fulfilled [] \<and> getHeight e \<noteq> Rejected
        \<longrightarrow> getContext e = Inl UnableToFetchInputs"
    by (auto simp: getContext_def split: settled.splits)
  have d: "fetchBoxes e \<noteq> Rejected \<and> fetchBoxes e \<noteq> Fulfilled []
         \<and> (getHeight e = Fulfilled None \<or> getHeight e = Fulfilled (Some 0))
        \<longrightarrow> getContext e = Inl UnableToFetchHeight"
    by (auto simp: getContext_def split: settled.splits)
  have f: "createP2PTransaction e recipientAddress as fe walletType = Inl err
            \<and> createRBFCancellationTransaction e unconfirmedTx = Inl err"
    if "getContext e = Inl err" for err
    using that by (simp add: createP2PTransaction_def createRBFCancellationTransaction_def)
  have g: "\<exists>ins ht. fetchBoxes e = Fulfilled ins \<and> ins \<noteq> []
                  \<and> getHeight e = Fulfilled (Some ht) \<and> ht \<noteq> 0"
    if h: "createP2PTransaction e recipientAddress as fe walletType = Inr draft
                \<or> createRBFCancellationTransaction e unconfirmedTx = Inr draft" for draft
  proof (cases "getContext e")
    case (Inl err)
    with f [of err] h show ?thesis by simp
  next
    case (Inr p)
    then obtain ins ht where "getContext e = Inr (ins, ht)" by (cases p) simp
    then show ?thesis using getContext_Inr_iff [of e ins ht] by blast
  qed
  from a b c d f g show ?thesis by blast
qed

theorem getContext_all_or_nothing_witness:
  "getContext (sample_env Rejected (Fulfilled (Some 1200)) (\<lambda>b cands. Some cands))
     = Inl FetchRejected
   \<and> createP2PTransaction (sample_env Rejected (Fulfilled (Some 1200)) (\<lambda>b cands. Some cands))
        ''9recipient'' sample_assets sample_native_fee Standard = Inl FetchRejected
   \<and> createRBFCancellationTransaction
        (sample_env (Fulfilled []) (Fulfilled (Some 1200)) (\<lambda>b cands. Some cands))
        sample_unconfirmed = Inl UnableToFetchInputs
   \<and> createP2PTransaction
        (sample_env (Fulfilled [mk_box ''in2'' ''walletTree'' 7000000 [] 800]) (Fulfilled None)
           (\<lambda>b cands. Some cands))
        ''9recipient'' sample_assets sample_native_fee Standard = Inl UnableToFetchHeight
   \<and> getContext (sample_env (Fulfilled [mk_box ''in2'' ''walletTree'' 7000000 [] 800])
                   (Fulfilled (Some 1200)) (\<lambda>b cands. Some cands))
       = Inr ([mk_box ''in2'' ''walletTree'' 7000000 [] 800], 1200)"
proof -
  let ?sel = "\<lambda>(b::TransactionBuilder) (cands::box list). Some cands"
  let ?bx = "mk_box ''in2'' ''walletTree'' 7000000 [] 800"
  note t1 = getContext_all_or_nothing [of "sample_env Rejected (Fulfilled (Some 1200)) ?sel"
      "[]" 0 "''9recipient''" sample_assets sample_native_fee Standard sample_unconfirmed]
  note t2 = getContext_all_or_nothing [of "sample_env (Fulfilled []) (Fulfilled (Some 1200)) ?sel"
      "[]" 0 "''9recipient''" sample_assets sample_native_fee Standard sample_unconfirmed]
  note t3 = getContext_all_or_nothing [of "sample_env (Fulfilled [?bx]) (Fulfilled None) ?sel"
      "[]" 0 "''9recipient''" sample_assets sample_native_fee Standard sample_unconfirmed]
  note t4 = getContext_all_or_nothing [of "sample_env (Fulfilled [?bx]) (Fulfilled (Some 1200)) ?sel"
      "[?bx]" 1200 "''9recipient''" sample_assets sample_native_fee Standard sample_unconfirmed]
  have f1: "fetchBoxes (sample_env Rejected (Fulfilled (Some 1200)) ?sel) = Rejected"
    by (simp add: sample_env_def)
  have f2: "fetchBoxes (sample_env (Fulfilled []) (Fulfilled (Some 1200)) ?sel) = Fulfilled []
     \<and> getHeight (sample_env (Fulfilled []) (Fulfilled (Some 1200)) ?sel) \<noteq> Rejected"
    by (simp add: sample_env_def)
  have f3: "fetchBoxes (sample_env (Fulfilled [?bx]) (Fulfilled None) ?sel) \<noteq> Rejected
     \<and> fetchBoxes (sample_env (Fulfilled [?bx]) (Fulfilled None) ?sel) \<noteq> Fulfilled []
     \<and> getHeight (sample_env (Fulfilled [?bx]) (Fulfilled None) ?sel) = Fulfilled None"
    by (simp add: sample_env_def)
  have f4: "fetchBoxes (sample_env (Fulfilled [?bx]) (Fulfilled (Some 1200)) ?sel) = Fulfilled [?bx]
     \<and> [?bx] \<noteq> []
     \<and> getHeight (sample_env (Fulfilled [?bx]) (Fulfilled (Some 1200)) ?sel) = Fulfilled (Some 1200)
     \<and> (1200::nat) \<noteq> 0"
    by (simp add: sample_env_def)
  from t1 f1 have c1: "getContext (sample_env Rejected (Fulfilled (Some 1200)) ?sel) = Inl FetchRejected"
    by blast
  with t1 have c1': "createP2PTransaction (sample_env Rejected (Fulfilled (Some 1200)) ?sel)
        ''9recipient'' sample_assets sample_native_fee Standard = Inl FetchRejected"
    by blast
  from t2 f2 have c2: "createRBFCancellationTransaction
        (sample_env (Fulfilled []) (Fulfilled (Some 1200)) ?sel)
        sample_unconfirmed = Inl UnableToFetchInputs"
    by blast
  from t3 f3 have c3: "createP2PTransaction
        (sample_env (Fulfilled [?bx]) (Fulfilled None) ?sel)
        ''9recipient'' sample_assets sample_native_fee Standard = Inl UnableToFetchHeight"
    by blast
  from t4 f4 have c4: "getContext (sample_env (Fulfilled [?bx]) (Fulfilled (Some 1200)) ?sel)
       = Inr ([?bx], 1200)"
    by blast
  from c1 c1' c2 c3 c4 show ?thesis by blast
qed

lemma filter_pinned_own:
  "filter (\<lambda>i. boxId i \<in> boxId ` set own)
     (own @ filter (\<lambda>input. boxId input \<notin> boxId ` set own) others) = own"
proof -
  have "filter (\<lambda>i. boxId i \<in> boxId ` set own) own = own"
    by (rule filter_True) simp
  moreover have "filter (\<lambda>i. boxId i \<in> boxId ` set own)
      (filter (\<lambda>input. boxId input \<notin> boxId ` set own) others) = []"
    by (simp add: filter_empty_conv)
  ultimately show ?thesis by simp
qed

lemma build_Inr:
  "build sel b = Inr draft \<Longrightarrow>
     \<exists>picked. tx_inputs draft
        = filter (\<lambda>i. boxId i \<in> set (tb_ensureInclusion b)) (tb_inputs b) @ picked
      \<and> tx_outputs draft = tb_outputs b \<and> tx_fee draft = tb_feeAmount b
      \<and> tx_changeAddress draft = tb_changeAddress b \<and> tx_plugins draft = tb_plugins b"
  by (auto simp: build_def Let_def split: option.splits)

lemma setSelection_keeps:
  "tb_inputs (setSelectionAndChangeStrategy wt b) = tb_inputs b"
  "tb_ensureInclusion (setSelectionAndChangeStrategy wt b) = tb_ensureInclusion b"
  "tb_outputs (setSelectionAndChangeStrategy wt b) = tb_outputs b"
  "tb_feeAmount (setSelectionAndChangeStrategy wt b) = tb_feeAmount b"
  "tb_changeAddress (setSelectionAndChangeStrategy wt b) = tb_changeAddress b"
  "tb_plugins (setSelectionAndChangeStrategy wt b) = tb_plugins b"
  by (simp_all add: setSelectionAndChangeStrategy_def)

text \<open>
  Claim C1. A cancellation draft built from an unconfirmed transaction starts its input
  list with every own input of that transaction, whatever the selection strategy picks,
  and its fee is the original fee plus \<^verbatim>\<open>SAFE_MIN_FEE_VALUE\<close>, strictly more than the
  original fee; it has no payment output and its change goes to the wallet.
\<close>

theorem cancellation_pins_inputs_and_raises_fee:
  assumes ok: "createRBFCancellationTransaction e unconfirmedTx = Inr draft"
      and pos: "0 < SAFE_MIN_FEE_VALUE (constants e)"
  shows "set (ownInputs unconfirmedTx) \<subseteq> set (tx_inputs draft)
     \<and> (\<exists>picked. tx_inputs draft = ownInputs unconfirmedTx @ picked)
     \<and> tx_fee draft
         = Some (undecimalize (fee unconfirmedTx) (Some (ERG_DECIMALS (constants e)))
                 + of_int (SAFE_MIN_FEE_VALUE (constants e)))
     \<and> (\<forall>newFee. tx_fee draft = Some newFee \<longrightarrow>
           undecimalize (fee unconfirmedTx) (Some (ERG_DECIMALS (constants e))) < newFee)
     \<and> tx_outputs draft = []
     \<and> tx_changeAddress draft = Some (safeGetChangeAddress e)"
proof -
  from ok obtain inputs h where ctx: "getContext e = Inr (inputs, h)"
    by (cases "getContext e") (auto simp: createRBFCancellationTransaction_def)
  let ?own = "ownInputs unconfirmedTx"
  let ?u = "sendChangeTo (safeGetChangeAddress e)
       (payFee (undecimalize (fee unconfirmedTx) (Some (ERG_DECIMALS (constants e)))
                  + of_int (SAFE_MIN_FEE_VALUE (constants e)))
          (from_boxes (filter (\<lambda>input. boxId input \<notin> boxId ` set ?own) inputs) False
             (from_boxes ?own True (newTransactionBuilder h))))"
  from ok ctx have b: "build (selectBoxes e)
       (setSelectionAndChangeStrategy (wallet_store_type e) ?u) = Inr draft"
    by (simp add: createRBFCancellationTransaction_def Let_def)
  have ins: "tb_inputs ?u = ?own @ filter (\<lambda>input. boxId input \<notin> boxId ` set ?own) inputs"
    and ens: "tb_ensureInclusion ?u = map boxId ?own"
    and outs: "tb_outputs ?u = []"
    and fe: "tb_feeAmount ?u
         = Some (undecimalize (fee unconfirmedTx) (Some (ERG_DECIMALS (constants e)))
                 + of_int (SAFE_MIN_FEE_VALUE (constants e)))"
    and ch: "tb_changeAddress ?u = Some (safeGetChangeAddress e)"
    by (simp_all add: sendChangeTo_def payFee_def from_boxes_def newTransactionBuilder_def)
  from build_Inr [OF b] obtain picked where
    d: "tx_inputs draft = filter (\<lambda>i. boxId i \<in> boxId ` set ?own)
           (?own @ filter (\<lambda>input. boxId input \<notin> boxId ` set ?own) inputs) @ picked"
      "tx_outputs draft = []"
      "tx_fee draft = Some (undecimalize (fee unconfirmedTx) (Some (ERG_DECIMALS (constants e)))
                 + of_int (SAFE_MIN_FEE_VALUE (constants e)))"
      "tx_changeAddress draft = Some (safeGetChangeAddress e)"
    unfolding setSelection_keeps ins ens outs fe ch by auto
  from d(1) have i: "tx_inputs draft = ?own @ picked"
    by (simp only: filter_pinned_own)
  from pos have "(0::rat) < of_int (SAFE_MIN_FEE_VALUE (constants e))" by simp
  with i d show ?thesis by auto
qed

theorem cancellation_pins_inputs_and_raises_fee_witness:
  "createRBFCancellationTransaction
      (sample_env (Fulfilled [mk_box ''in1'' ''walletTree'' 3000000 [] 900,
                              mk_box ''in2'' ''walletTree'' 7000000 [] 800])
                  (Fulfilled (Some 1200)) (\<lambda>b cands. Some []))
      sample_unconfirmed
     = Inr \<lparr>tx_inputs = [mk_box ''in1'' ''walletTree'' 3000000 [] 900], tx_outputs = [],
            tx_fee = Some 2200000, tx_changeAddress = Some ''9change0'', tx_plugins = []\<rparr>
   \<and> 0 < SAFE_MIN_FEE_VALUE (constants (sample_env (Fulfilled [mk_box ''in1'' ''walletTree'' 3000000 [] 900,
                              mk_box ''in2'' ''walletTree'' 7000000 [] 800])
                  (Fulfilled (Some 1200)) (\<lambda>b cands. Some [])))
   \<and> undecimalize (fee sample_unconfirmed) (Some 9) = 1100000
   \<and> set (ownInputs sample_unconfirmed) \<subseteq> set [mk_box ''in1'' ''walletTree'' 3000000 [] 900]"
proof -
  let ?e = "sample_env (Fulfilled [mk_box ''in1'' ''walletTree'' 3000000 [] 900,
                              mk_box ''in2'' ''walletTree'' 7000000 [] 800])
                  (Fulfilled (Some 1200)) (\<lambda>b cands. Some [])"
  have r: "createRBFCancellationTransaction ?e sample_unconfirmed
     = Inr \<lparr>tx_inputs = [mk_box ''in1'' ''walletTree'' 3000000 [] 900], tx_outputs = [],
            tx_fee = Some 2200000, tx_changeAddress = Some ''9change0'', tx_plugins = []\<rparr>"
    by (simp add: createRBFCancellationTransaction_def getContext_def sample_env_def
        sample_unconfirmed_def sample_constants_def build_def Let_def
        setSelectionAndChangeStrategy_def sendChangeTo_def payFee_def from_boxes_def
        newTransactionBuilder_def safeGetChangeAddress_def undecimalize_def mk_box_def)
  have p: "0 < SAFE_MIN_FEE_VALUE (constants ?e)"
    by (simp add: sample_env_def sample_constants_def)
  have u: "undecimalize (fee sample_unconfirmed) (Some 9) = 1100000"
    by (simp add: undecimalize_def sample_unconfirmed_def)
  from cancellation_pins_inputs_and_raises_fee [OF r p]
  have "set (ownInputs sample_unconfirmed) \<subseteq> set [mk_box ''in1'' ''walletTree'' 3000000 [] 900]"
    by simp
  with r p u show ?thesis by blast
qed















section \<open>Properties of the output interpreter\<close>

lemma sample_swap_assets:
  "interpreter_assets sample_constants sample_isValidBabelContract sample_decode Map.empty
     swap_output [swap_input]
   = [\<lparr>tokenId = ''assetB'', amount = - 100, name = None, decimals = Undefined,
       description = None, minting = None\<rparr>,
      \<lparr>tokenId = ERG_TOKEN_ID sample_constants, amount = - (1 / 200), name = Some ''ERG'',
       decimals = Undefined, description = None, minting = None\<rparr>]"
  by (simp add: interpreter_assets_def isBabelBoxSwap_def buildBabelSwapAssetsList_def
      sample_isValidBabelContract_def swap_output_def swap_input_def mk_box_def
      metadataDecimals_def metadataName_def ergAsset_def decimalize_def sample_constants_def)

text \<open>
  Claim C4, as amended. For an output whose script is a swap contract and is shared by
  some input, the interpreter lists one entry per token of the output and a last entry
  for the native currency, each a difference against the first input with that script:
  for a token the output's amount less the input's (zero when the input lacks the token),
  scaled by the token's known decimals; for the native currency the input's value less
  the output's, scaled by \<^verbatim>\<open>ERG_DECIMALS\<close>. The native entry therefore has the opposite
  orientation to the token entries.
\<close>

theorem babel_swap_assets_are_deltas:
  assumes swap: "isBabelBoxSwap isValidBabelContract bx inputs"
  shows "\<exists>input. find (\<lambda>i. ergoTree i = ergoTree bx) inputs = Some input
     \<and> input \<in> set inputs \<and> ergoTree input = ergoTree bx
     \<and> length (interpreter_assets c isValidBabelContract dec metadata bx inputs)
         = Suc (length (assets bx))
     \<and> (\<forall>k<length (assets bx).
           tokenId (interpreter_assets c isValidBabelContract dec metadata bx inputs ! k)
             = tokenId (assets bx ! k)
         \<and> amount (interpreter_assets c isValidBabelContract dec metadata bx inputs ! k)
             = decimalize
                 (of_int (amount (assets bx ! k))
                  - of_int (case find (\<lambda>a. tokenId a = tokenId (assets bx ! k)) (assets input) of
                              None \<Rightarrow> 0 | Some a \<Rightarrow> amount a))
                 (case metadataDecimals metadata (tokenId (assets bx ! k)) of
                    None \<Rightarrow> 0 | Some d \<Rightarrow> d))
     \<and> tokenId (last (interpreter_assets c isValidBabelContract dec metadata bx inputs))
         = ERG_TOKEN_ID c
     \<and> amount (last (interpreter_assets c isValidBabelContract dec metadata bx inputs))
         = decimalize (of_int (value input) - of_int (value bx)) (ERG_DECIMALS c)"
proof -
  from swap obtain input where f: "find (\<lambda>i. ergoTree i = ergoTree bx) inputs = Some input"
    by (auto simp: isBabelBoxSwap_def)
  from find_Some_mem [OF f] have m: "input \<in> set inputs" "ergoTree input = ergoTree bx"
    by simp_all
  let ?row = "\<lambda>token.
                 (let inputValue = (case find (\<lambda>a. tokenId a = tokenId token) (assets input) of
                                      None \<Rightarrow> 0 | Some a \<Rightarrow> amount a)
                  in \<lparr>tokenId = tokenId token,
                      amount = decimalize (of_int (amount token) - of_int inputValue)
                                 (case metadataDecimals metadata (tokenId token) of
                                    None \<Rightarrow> 0 | Some d \<Rightarrow> d),
                      name = metadataName metadata (tokenId token),
                      decimals = Undefined, description = None, minting = None\<rparr>)"
  have as: "interpreter_assets c isValidBabelContract dec metadata bx inputs
      = map ?row (assets bx) @ [ergAsset c (of_int (value input) - of_int (value bx))]"
    using swap f by (simp add: interpreter_assets_def buildBabelSwapAssetsList_def)
  have len: "length (interpreter_assets c isValidBabelContract dec metadata bx inputs)
         = Suc (length (assets bx))"
    by (simp add: as)
  have rows: "tokenId (interpreter_assets c isValidBabelContract dec metadata bx inputs ! k)
             = tokenId (assets bx ! k)
         \<and> amount (interpreter_assets c isValidBabelContract dec metadata bx inputs ! k)
             = decimalize
                 (of_int (amount (assets bx ! k))
                  - of_int (case find (\<lambda>a. tokenId a = tokenId (assets bx ! k)) (assets input) of
                              None \<Rightarrow> 0 | Some a \<Rightarrow> amount a))
                 (case metadataDecimals metadata (tokenId (assets bx ! k)) of
                    None \<Rightarrow> 0 | Some d \<Rightarrow> d)"
    if "k < length (assets bx)" for k
    using that by (simp add: as nth_append Let_def)
  have lst: "tokenId (last (interpreter_assets c isValidBabelContract dec metadata bx inputs))
         = ERG_TOKEN_ID c"
    "amount (last (interpreter_assets c isValidBabelContract dec metadata bx inputs))
         = decimalize (of_int (value input) - of_int (value bx)) (ERG_DECIMALS c)"
    by (simp_all add: as ergAsset_def)
  from f m len rows lst show ?thesis by blast
qed

theorem babel_swap_assets_are_deltas_witness:
  "isBabelBoxSwap sample_isValidBabelContract swap_output [swap_input]
   \<and> amount (interpreter_assets sample_constants sample_isValidBabelContract sample_decode
               Map.empty swap_output [swap_input] ! 0)
       = decimalize (900 - 1000) 0
   \<and> amount (last (interpreter_assets sample_constants sample_isValidBabelContract
                     sample_decode Map.empty swap_output [swap_input]))
       = decimalize (2000000000 - 2005000000) 9"
proof -
  have sw: "isBabelBoxSwap sample_isValidBabelContract swap_output [swap_input]"
    by (simp add: isBabelBoxSwap_def sample_isValidBabelContract_def swap_output_def
        swap_input_def mk_box_def)
  from babel_swap_assets_are_deltas [OF sw, of sample_constants sample_decode Map.empty]
  obtain input where i: "find (\<lambda>i. ergoTree i = ergoTree swap_output) [swap_input] = Some input"
    and rows: "\<forall>k<length (assets swap_output).
           amount (interpreter_assets sample_constants sample_isValidBabelContract sample_decode
                     Map.empty swap_output [swap_input] ! k)
             = decimalize
                 (of_int (amount (assets swap_output ! k))
                  - of_int (case find (\<lambda>a. tokenId a = tokenId (assets swap_output ! k))
                                   (assets input) of
                              None \<Rightarrow> 0 | Some a \<Rightarrow> amount a))
                 (case metadataDecimals Map.empty (tokenId (assets swap_output ! k)) of
                    None \<Rightarrow> 0 | Some d \<Rightarrow> d)"
    and lst: "amount (last (interpreter_assets sample_constants sample_isValidBabelContract
                     sample_decode Map.empty swap_output [swap_input]))
         = decimalize (of_int (value input) - of_int (value swap_output))
             (ERG_DECIMALS sample_constants)"
    by blast
  from i have inp: "input = swap_input"
    by (simp add: swap_output_def swap_input_def mk_box_def)
  have "0 < length (assets swap_output)" by (simp add: swap_output_def)
  with rows have "amount (interpreter_assets sample_constants sample_isValidBabelContract
                     sample_decode Map.empty swap_output [swap_input] ! 0)
             = decimalize
                 (of_int (amount (assets swap_output ! 0))
                  - of_int (case find (\<lambda>a. tokenId a = tokenId (assets swap_output ! 0))
                                   (assets input) of
                              None \<Rightarrow> 0 | Some a \<Rightarrow> amount a))
                 (case metadataDecimals Map.empty (tokenId (assets swap_output ! 0)) of
                    None \<Rightarrow> 0 | Some d \<Rightarrow> d)"
    by blast
  then have r0: "amount (interpreter_assets sample_constants sample_isValidBabelContract
                     sample_decode Map.empty swap_output [swap_input] ! 0)
       = decimalize (900 - 1000) 0"
    by (simp add: inp swap_output_def swap_input_def mk_box_def metadataDecimals_def)
  from lst have l: "amount (last (interpreter_assets sample_constants sample_isValidBabelContract
                     sample_decode Map.empty swap_output [swap_input]))
       = decimalize (2000000000 - 2005000000) 9"
    by (simp add: inp swap_output_def swap_input_def mk_box_def sample_constants_def)
  from sw r0 l show ?thesis by blast
qed

text \<open>
  Claim C4 as it was stated fails at its own worked example: for an input holding 1000 of
  asset B and 2000000000 native units and an output holding 900 of B and 2005000000
  native units the interpreter reports -100 of B and -0.005 (the input less the output,
  in display units), not +5000000 native units.
\<close>

theorem babel_swap_native_delta_counterexample:
  "value swap_input = 2000000000 \<and> value swap_output = 2005000000
   \<and> assets swap_input = [\<lparr>tokenId = ''assetB'', amount = 1000\<rparr>]
   \<and> assets swap_output = [\<lparr>tokenId = ''assetB'', amount = 900\<rparr>]
   \<and> isBabelBoxSwap sample_isValidBabelContract swap_output [swap_input]
   \<and> map amount (interpreter_assets sample_constants sample_isValidBabelContract sample_decode
                    Map.empty swap_output [swap_input])
       = [- 100, - (1 / 200)]
   \<and> amount (last (interpreter_assets sample_constants sample_isValidBabelContract
                     sample_decode Map.empty swap_output [swap_input]))
       \<noteq> 5000000
   \<and> amount (last (interpreter_assets sample_constants sample_isValidBabelContract
                     sample_decode Map.empty swap_output [swap_input]))
       \<noteq> decimalize 5000000 (ERG_DECIMALS sample_constants)"
proof -
  have sw: "isBabelBoxSwap sample_isValidBabelContract swap_output [swap_input]"
    by (simp add: isBabelBoxSwap_def sample_isValidBabelContract_def swap_output_def
        swap_input_def mk_box_def)
  have d: "decimalize 5000000 (ERG_DECIMALS sample_constants) = 1 / 200"
    by (simp add: decimalize_def sample_constants_def)
  have v: "value swap_input = 2000000000 \<and> value swap_output = 2005000000
   \<and> assets swap_input = [\<lparr>tokenId = ''assetB'', amount = 1000\<rparr>]
   \<and> assets swap_output = [\<lparr>tokenId = ''assetB'', amount = 900\<rparr>]"
    by (simp add: swap_output_def swap_input_def mk_box_def)
  show ?thesis using sw v by (simp add: sample_swap_assets d)
qed


lemma getMintingToken_no_registers:
  assumes "inputs = firstInput # others" and "boxId firstInput \<noteq> []"
      and "find (\<lambda>b. tokenId b = boxId firstInput) (assets bx) = Some token"
      and "additionalRegisters bx = []"
  shows "getMintingToken dec bx inputs =
     Some \<lparr>tokenId = tokenId token, amount = of_int (amount token),
           name = None, decimals = Undefined, description = None, minting = None\<rparr>"
  using assms by (simp add: getMintingToken_def)





lemma getMintingToken_empty_registers_flag:
  "additionalRegisters bx = [] \<Longrightarrow> getMintingToken dec bx inputs = Some m \<Longrightarrow> minting m = None"
  by (auto simp: getMintingToken_def split: list.splits if_splits option.splits)

lemma buildSendingAssetsList_no_flag:
  assumes "additionalRegisters bx = []"
  shows "\<forall>a\<in>set (buildSendingAssetsList c dec metadata bx inputs). minting a = None"
proof (cases "getMintingToken dec bx inputs")
  case None
  then show ?thesis
    by (auto simp: buildSendingAssetsList_def Let_def ergAsset_def)
next
  case (Some m)
  with assms have m: "minting m = None" by (rule getMintingToken_empty_registers_flag)
  show ?thesis
  proof
    fix a
    assume "a \<in> set (buildSendingAssetsList c dec metadata bx inputs)"
    then show "minting a = None"
      using Some m set_update_subset_insert
      by (fastforce simp: buildSendingAssetsList_def Let_def ergAsset_def
          split: if_splits option.splits)
  qed
qed

lemma interpreter_assets_no_flag:
  assumes "additionalRegisters bx = []"
  shows "\<forall>a\<in>set (interpreter_assets c isValidBabelContract dec metadata bx inputs).
           minting a = None"
proof (cases "find (\<lambda>input. ergoTree input = ergoTree bx) inputs")
  case None
  then show ?thesis
    using buildSendingAssetsList_no_flag [OF assms]
    by (simp add: interpreter_assets_def buildBabelSwapAssetsList_def)
next
  case (Some input)
  have "\<forall>a\<in>set (buildBabelSwapAssetsList c dec metadata bx inputs). minting a = None"
    using Some by (auto simp: buildBabelSwapAssetsList_def Let_def ergAsset_def)
  then show ?thesis
    using buildSendingAssetsList_no_flag [OF assms]
    by (simp add: interpreter_assets_def)
qed

text \<open>
  Claim C10. When an output carries the token whose id is the id of the first input but
  has no registers at all, \<^verbatim>\<open>getMintingToken\<close> returns that token with its raw amount
  and without the minting flag, and \<^verbatim>\<open>isMinting\<close> is false for the output.
\<close>

theorem empty_registers_mint_is_not_flagged:
  assumes ins: "inputs = firstInput # others"
      and tok: "find (\<lambda>b. tokenId b = boxId firstInput) (assets bx) = Some token"
      and empty: "additionalRegisters bx = []"
  shows "tokenId token = boxId firstInput
     \<and> (boxId firstInput \<noteq> [] \<longrightarrow>
          getMintingToken dec bx inputs
            = Some \<lparr>tokenId = tokenId token, amount = of_int (amount token),
                    name = None, decimals = Undefined, description = None, minting = None\<rparr>)
     \<and> \<not> isMinting c isValidBabelContract dec metadata bx inputs"
proof -
  from find_Some_mem [OF tok] have t: "tokenId token = boxId firstInput" by simp
  have g: "boxId firstInput \<noteq> [] \<longrightarrow>
          getMintingToken dec bx inputs
            = Some \<lparr>tokenId = tokenId token, amount = of_int (amount token),
                    name = None, decimals = Undefined, description = None, minting = None\<rparr>"
    using getMintingToken_no_registers [OF ins _ tok empty, of dec] by blast
  have "find (\<lambda>a. minting a = Some True)
        (interpreter_assets c isValidBabelContract dec metadata bx inputs) = None"
    using interpreter_assets_no_flag [OF empty, of c isValidBabelContract dec metadata inputs]
    by (simp add: find_None_iff)
  then have "\<not> isMinting c isValidBabelContract dec metadata bx inputs"
    by (simp add: isMinting_def)
  with t g show ?thesis by blast
qed

theorem empty_registers_mint_is_not_flagged_witness:
  "getMintingToken sample_decode (mint_output []) mint_inputs
     = Some \<lparr>tokenId = ''in1'', amount = 12345, name = None, decimals = Undefined,
             description = None, minting = None\<rparr>
   \<and> \<not> isMinting sample_constants sample_isValidBabelContract sample_decode Map.empty
          (mint_output []) mint_inputs
   \<and> isMinting sample_constants sample_isValidBabelContract sample_decode Map.empty
          (mint_output [(''R4'', ''0e05546f6b656e'')]) mint_inputs"
proof -
  let ?i = "mk_box ''in1'' ''walletTree'' 3000000 [] 900"
  let ?t = "\<lparr>tokenId = ''in1'', amount = (12345::int)\<rparr>"
  have ins: "mint_inputs = ?i # []" by (simp add: mint_inputs_def)
  have ne: "boxId ?i \<noteq> []" by (simp add: mk_box_def)
  have tok: "find (\<lambda>b. tokenId b = boxId ?i) (assets (mint_output [])) = Some ?t"
    by (simp add: mint_output_def mk_box_def)
  have em: "additionalRegisters (mint_output []) = []" by (simp add: mint_output_def)
  from empty_registers_mint_is_not_flagged [OF ins tok em, of sample_decode sample_constants
      sample_isValidBabelContract Map.empty] ne
  have a: "getMintingToken sample_decode (mint_output []) mint_inputs
     = Some \<lparr>tokenId = ''in1'', amount = 12345, name = None, decimals = Undefined,
             description = None, minting = None\<rparr>"
    and b: "\<not> isMinting sample_constants sample_isValidBabelContract sample_decode Map.empty
          (mint_output []) mint_inputs"
    by simp_all
  have c: "isMinting sample_constants sample_isValidBabelContract sample_decode Map.empty
          (mint_output [(''R4'', ''0e05546f6b656e'')]) mint_inputs"
    by (simp add: isMinting_def interpreter_assets_def isBabelBoxSwap_def
        sample_isValidBabelContract_def buildSendingAssetsList_def getMintingToken_def
        mint_inputs_def mint_output_def mk_box_def Let_def ergAsset_def metadataDecimals_def
        metadataName_def decodeDecimals_def decodeUtf8_def decodeRegister_def sample_decode_def)
  from a b c show ?thesis by blast
qed

end
